theory Spec2Isabelle
  imports Main "HOL-Library.Monad_Syntax"
begin

section \<open>Setting values\<close>

text \<open>
  \<^verbatim>\<open>getProperty\<close> is annotated \<^verbatim>\<open>-> Any\<close>. The code makes four observations of
  a value: \<^verbatim>\<open>is None\<close>, its truth value (\<^verbatim>\<open>not v\<close>), \<^verbatim>\<open>v != "-1"\<close> and
  \<^verbatim>\<open>str(v)\<close>. \<open>PyOther t r\<close> stands for an object of any other type (a float, a list):
  it is given by its truth value \<open>t\<close> and its \<^verbatim>\<open>str()\<close> text \<open>r\<close>.
\<close>

datatype pyval = PyNone | PyBool bool | PyInt int | PyStr string | PyOther bool string

text \<open>Python's truth value: \<^verbatim>\<open>None\<close>, \<^verbatim>\<open>False\<close>, \<^verbatim>\<open>0\<close> and \<^verbatim>\<open>""\<close> are false.\<close>

fun py_bool :: "pyval \<Rightarrow> bool" where
  "py_bool PyNone = False"
| "py_bool (PyBool b) = b"
| "py_bool (PyInt i) = (i \<noteq> 0)"
| "py_bool (PyStr s) = (s \<noteq> [])"
| "py_bool (PyOther t r) = t"

definition digit_char :: "nat \<Rightarrow> char" where
  "digit_char d = ''0123456789'' ! d"

fun str_nat :: "nat \<Rightarrow> string" where
  "str_nat n =
     (if n < 10 then [digit_char n] else str_nat (n div 10) @ [digit_char (n mod 10)])"

declare str_nat.simps [simp del]

text \<open>Python's \<^verbatim>\<open>str(v)\<close>: a string is itself, an integer is written in decimal.\<close>

fun py_str :: "pyval \<Rightarrow> string" where
  "py_str PyNone = ''None''"
| "py_str (PyBool b) = (if b then ''True'' else ''False'')"
| "py_str (PyInt i) = (if i < 0 then CHR ''-'' # str_nat (nat (- i)) else str_nat (nat i))"
| "py_str (PyStr s) = s"
| "py_str (PyOther t r) = r"

text \<open>
  Python's \<^verbatim>\<open>v != s\<close> for a string literal \<open>s\<close>: only a string can be equal to a
  string, so every value of another type differs from it.
\<close>

fun py_ne_str :: "pyval \<Rightarrow> string \<Rightarrow> bool" where
  "py_ne_str (PyStr t) s = (t \<noteq> s)"
| "py_ne_str v s = True"

section \<open>Stacks and the object store\<close>

text \<open>
  Objects are held in a store and named by their addresses; a Python reference always
  names a live object, so every address holds one. The two classes have a heap each:
  \<^verbatim>\<open>getNextStack\<close> returns an \<^verbatim>\<open>Optional["GlobalStack"]\<close>, and the global stack's
  \<^verbatim>\<open>extruders\<close> holds extruder stacks.
\<close>

type_synonym extruder_ref = nat
type_synonym global_ref = nat

text \<open>
  The exception of \<^verbatim>\<open>Exceptions.NoGlobalStackError\<close>, with its message.
  \<open>ContainerError\<close> is an exception raised by the inherited \<^verbatim>\<open>deserialize\<close>.
\<close>

datatype error = NoGlobalStackError string | ContainerError string

text \<open>
  An \<^verbatim>\<open>ExtruderStack\<close>. The inherited \<^verbatim>\<open>getProperty\<close> of the base class
  (\<^verbatim>\<open>super().getProperty\<close>), which resolves a key over the stack's own containers,
  is not part of this file: it is a parameter of the object, \<open>es_super_getProperty\<close>,
  that yields a value or \<^verbatim>\<open>None\<close>.
\<close>

record ExtruderStack =
  es_id :: string
  es_metadata :: "string \<rightharpoonup> string"
  es_next_stack :: "global_ref option"
  es_super_getProperty :: "string \<Rightarrow> string \<Rightarrow> pyval"

text \<open>
  A \<^verbatim>\<open>GlobalStack\<close>, as far as an extruder stack uses it: its \<^verbatim>\<open>id\<close>, its
  \<^verbatim>\<open>extruders\<close> dictionary from position to extruder stack, and its own
  \<^verbatim>\<open>getProperty\<close> and \<^verbatim>\<open>_getMachineDefinition\<close>, both parameters. A definition
  container is named by its identifier. The position of an extruder stack is what
  \<^verbatim>\<open>getMetaDataEntry("position")\<close> gives, a string or \<^verbatim>\<open>None\<close>: \<open>gs_extruders\<close> holds
  the entries of the dictionary under the strings, which are the ones \<^verbatim>\<open>getProperty\<close>
  looks up, and \<open>gs_extruders_None\<close> the entry under \<^verbatim>\<open>None\<close>.
\<close>

record GlobalStack =
  gs_id :: string
  gs_extruders :: "string \<rightharpoonup> extruder_ref"
  gs_extruders_None :: "extruder_ref option"
  gs_getProperty :: "string \<Rightarrow> string \<Rightarrow> pyval"
  gs_getMachineDefinition :: string


text \<open>
  The store: both heaps, the registrations of the \<^verbatim>\<open>ExtruderManager\<close> singleton
  (extruder stack to machine identifier) and the stacks of the \<^verbatim>\<open>ContainerRegistry\<close>
  singleton, in their order.
\<close>

record store =
  extruder_stacks :: "extruder_ref \<Rightarrow> ExtruderStack"
  global_stacks :: "global_ref \<Rightarrow> GlobalStack"
  extruder_manager :: "extruder_ref \<rightharpoonup> string"
  container_registry :: "global_ref list"

text \<open>\<^verbatim>\<open>getMetaDataEntry(name)\<close>: the entry, or \<^verbatim>\<open>None\<close> when there is none.\<close>

definition getMetaDataEntry :: "ExtruderStack \<Rightarrow> string \<Rightarrow> string option" where
  "getMetaDataEntry this name = es_metadata this name"

text \<open>\<^verbatim>\<open>getMetaDataEntry(name, default)\<close>.\<close>

definition getMetaDataEntry_default :: "ExtruderStack \<Rightarrow> string \<Rightarrow> string \<Rightarrow> string" where
  "getMetaDataEntry_default this name dflt =
     (case es_metadata this name of None \<Rightarrow> dflt | Some v \<Rightarrow> v)"

definition getNextStack :: "ExtruderStack \<Rightarrow> global_ref option" where
  "getNextStack this = es_next_stack this"

text \<open>\<^verbatim>\<open>"Extruder {id} is missing the next stack!".format(id = self.id)\<close>\<close>

definition missing_next_stack :: "string \<Rightarrow> error" where
  "missing_next_stack ident =
     NoGlobalStackError (''Extruder '' @ ident @ '' is missing the next stack!'')"

section \<open>Property resolution\<close>

text \<open>
  \<^verbatim>\<open>ExtruderStack.getProperty\<close>. The store is only read. The call on the sibling
  (\<^verbatim>\<open>extruders[str(limit_to_extruder)].getProperty\<close>) is a recursive call, and nothing
  bounds a chain of redirections, so the function is partial: \<open>None\<close> is a call that
  does not return, \<open>Some (Inl e)\<close> a raised exception, \<open>Some (Inr v)\<close> the returned
  value. An exception of the sibling is not caught and leaves the caller too.
\<close>

partial_function (option) getProperty ::
  "store \<Rightarrow> extruder_ref \<Rightarrow> string \<Rightarrow> string \<Rightarrow> (error + pyval) option" where
  "getProperty s self key property_name =
     (let this = extruder_stacks s self in
      case es_next_stack this of
        None \<Rightarrow> Some (Inl (missing_next_stack (es_id this)))
      | Some next_stack \<Rightarrow>
          if \<not> py_bool (es_super_getProperty this key ''settable_per_extruder'')
          then Some (Inr (gs_getProperty (global_stacks s next_stack) key property_name))
          else
            let limit_to_extruder = es_super_getProperty this key ''limit_to_extruder'' in
            if (limit_to_extruder \<noteq> PyNone \<and> py_ne_str limit_to_extruder ''-1'')
               \<and> getMetaDataEntry this ''position'' \<noteq> Some (py_str limit_to_extruder)
            then
              (case gs_extruders (global_stacks s next_stack) (py_str limit_to_extruder) of
                 None \<Rightarrow> Some (Inr (es_super_getProperty this key property_name))
               | Some sibling \<Rightarrow>
                   do {
                     result \<leftarrow> getProperty s sibling key property_name;
                     (case result of
                        Inl e \<Rightarrow> Some (Inl e)
                      | Inr v \<Rightarrow>
                          if v \<noteq> PyNone then Some (Inr v)
                          else Some (Inr (es_super_getProperty this key property_name)))
                   })
            else Some (Inr (es_super_getProperty this key property_name)))"

declare getProperty.simps [code]

section \<open>The machine definition\<close>

text \<open>
  \<^verbatim>\<open>ExtruderStack._getMachineDefinition\<close>. The method assigns nothing: the store it
  returns is the one it was given.
\<close>

definition getMachineDefinition :: "store \<Rightarrow> extruder_ref \<Rightarrow> (error + string) \<times> store" where
  "getMachineDefinition s self =
     (let this = extruder_stacks s self in
      case getNextStack this of
        None \<Rightarrow> (Inl (missing_next_stack (es_id this)), s)
      | Some next_stack \<Rightarrow> (Inr (gs_getMachineDefinition (global_stacks s next_stack)), s))"

section \<open>Linking to the global stack\<close>

text \<open>
  Modelled from the spec: the inherited \<^verbatim>\<open>ContainerStack.setNextStack\<close>, which is not
  in the source file. "Store the parent reference as this sub-unit's sole parent."
\<close>

definition super_setNextStack :: "store \<Rightarrow> extruder_ref \<Rightarrow> global_ref \<Rightarrow> store" where
  "super_setNextStack s self stack =
     s\<lparr>extruder_stacks :=
         (extruder_stacks s)(self := (extruder_stacks s self)\<lparr>es_next_stack := Some stack\<rparr>)\<rparr>"

text \<open>
  Modelled from the spec: \<^verbatim>\<open>GlobalStack.addExtruder\<close>, which is not in the source file.
  "Registers a sub-unit into the parent's addressable collection", which is a "mapping
  from position-string to sub-unit stack": every extruder is entered, under its
  position. The spec names no condition and no failure of its own for this step, so
  an extruder that has no \<^verbatim>\<open>position\<close> entry is entered as well, under the position
  \<^verbatim>\<open>None\<close> that \<^verbatim>\<open>getMetaDataEntry("position")\<close> gives for it.
\<close>

definition addExtruder :: "store \<Rightarrow> global_ref \<Rightarrow> extruder_ref \<Rightarrow> store" where
  "addExtruder s stack extruder =
     (case getMetaDataEntry (extruder_stacks s extruder) ''position'' of
        None \<Rightarrow>
          s\<lparr>global_stacks :=
              (global_stacks s)(stack := (global_stacks s stack)
                 \<lparr>gs_extruders_None := Some extruder\<rparr>)\<rparr>
      | Some position \<Rightarrow>
          s\<lparr>global_stacks :=
              (global_stacks s)(stack := (global_stacks s stack)
                 \<lparr>gs_extruders := (gs_extruders (global_stacks s stack))(position \<mapsto> extruder)\<rparr>)\<rparr>)"

text \<open>
  Modelled from the spec: the inherited \<^verbatim>\<open>addMetaDataEntry\<close>, which is not in the
  source file. "Metadata write": the entry \<open>name\<close> holds \<open>v\<close> afterwards.
\<close>

definition addMetaDataEntry :: "store \<Rightarrow> extruder_ref \<Rightarrow> string \<Rightarrow> string \<Rightarrow> store" where
  "addMetaDataEntry s self name v =
     s\<lparr>extruder_stacks :=
         (extruder_stacks s)(self := (extruder_stacks s self)
            \<lparr>es_metadata := (es_metadata (extruder_stacks s self))(name \<mapsto> v)\<rparr>)\<rparr>"

text \<open>
  Modelled from the spec: \<^verbatim>\<open>ExtruderManager.registerExtruder\<close>, which is not in the
  source file. "Register the (sub-unit, parent-identifier) pair with the external
  compatibility-tracking collaborator"; a sub-unit "is registered with at most one
  parent at a time", and "re-linking re-registers".
\<close>

definition registerExtruder :: "store \<Rightarrow> extruder_ref \<Rightarrow> string \<Rightarrow> store" where
  "registerExtruder s extruder machine_id =
     s\<lparr>extruder_manager := (extruder_manager s)(extruder \<mapsto> machine_id)\<rparr>"

text \<open>\<^verbatim>\<open>ExtruderStack.setNextStack\<close>: the four calls of the source, in its order.\<close>

definition setNextStack :: "store \<Rightarrow> extruder_ref \<Rightarrow> global_ref \<Rightarrow> store" where
  "setNextStack s self stack =
     (let s1 = super_setNextStack s self stack;
          s2 = addExtruder s1 stack self;
          s3 = addMetaDataEntry s2 self ''machine'' (gs_id (global_stacks s2 stack));
          s4 = registerExtruder s3 self (gs_id (global_stacks s3 stack))
      in s4)"





section \<open>Loading\<close>

text \<open>
  Modelled from the spec: \<^verbatim>\<open>ContainerRegistry.findContainerStacks(id = ...)\<close>, which is
  not in the source file. "FindStacksById(id) -> ordered sequence of stacks": the
  registered stacks with that identifier, in the registry's order.
\<close>

definition findContainerStacks :: "store \<Rightarrow> string \<Rightarrow> global_ref list" where
  "findContainerStacks s ident =
     filter (\<lambda>stack. gs_id (global_stacks s stack) = ident) (container_registry s)"

text \<open>
  \<^verbatim>\<open>ExtruderStack.deserialize\<close>. The inherited \<^verbatim>\<open>deserialize\<close> is a parameter,
  \<open>super_deserialize\<close>: from the object and the text it gives the object as loaded, or
  raises.
\<close>

text \<open>The store once the inherited \<^verbatim>\<open>deserialize\<close> has rewritten the object \<open>self\<close>.\<close>

definition loaded :: "store \<Rightarrow> extruder_ref \<Rightarrow> ExtruderStack \<Rightarrow> store" where
  "loaded s self this = s\<lparr>extruder_stacks := (extruder_stacks s)(self := this)\<rparr>"

definition deserialize ::
  "(ExtruderStack \<Rightarrow> string \<Rightarrow> error + ExtruderStack) \<Rightarrow> store \<Rightarrow> extruder_ref \<Rightarrow> string
     \<Rightarrow> error + store" where
  "deserialize super_deserialize s self contents =
     (case super_deserialize (extruder_stacks s self) contents of
        Inl e \<Rightarrow> Inl e
      | Inr this \<Rightarrow>
          let s1 = loaded s self this;
              stacks = findContainerStacks s1
                         (getMetaDataEntry_default (extruder_stacks s1 self) ''machine'' [])
          in (case stacks of
                [] \<Rightarrow> Inr s1
              | stack # _ \<Rightarrow> Inr (setNextStack s1 self stack)))"

section \<open>A machine with two extruders\<close>

text \<open>
  The scenario of the specification: extruder stacks \<open>E1\<close> (position 0, address 0) and
  \<open>E2\<close> (position 1, address 1) linked to the global stack at address 0; the key
  \<^verbatim>\<open>wall_thickness\<close> is settable per extruder, with the values 0.8 and 1.2. \<open>E3\<close>
  (every other address) is an extruder stack that is not linked. The
  \<^verbatim>\<open>limit_to_extruder\<close> of \<open>E1\<close> and the \<^verbatim>\<open>extruders\<close> of the global stack are
  left open.
\<close>

definition local_settings :: "pyval \<Rightarrow> pyval \<Rightarrow> pyval \<Rightarrow> string \<Rightarrow> string \<Rightarrow> pyval" where
  "local_settings limit v label key property_name =
     (if key = ''wall_thickness'' then
        (if property_name = ''settable_per_extruder'' then PyBool True
         else if property_name = ''limit_to_extruder'' then limit
         else if property_name = ''value'' then v
         else if property_name = ''label'' then label
         else PyNone)
      else PyNone)"

definition E1 :: "pyval \<Rightarrow> ExtruderStack" where
  "E1 limit =
     \<lparr>es_id = ''E1'',
      es_metadata =
        [''type'' \<mapsto> ''extruder_train'', ''position'' \<mapsto> ''0'', ''machine'' \<mapsto> ''G''],
      es_next_stack = Some 0,
      es_super_getProperty = local_settings limit (PyOther True ''0.8'') (PyStr ''Wall'')\<rparr>"

definition E2 :: ExtruderStack where
  "E2 =
     \<lparr>es_id = ''E2'',
      es_metadata =
        [''type'' \<mapsto> ''extruder_train'', ''position'' \<mapsto> ''1'', ''machine'' \<mapsto> ''G''],
      es_next_stack = Some 0,
      es_super_getProperty = local_settings (PyStr ''-1'') (PyOther True ''1.2'') PyNone\<rparr>"

definition E3 :: ExtruderStack where
  "E3 =
     \<lparr>es_id = ''E3'',
      es_metadata = [''type'' \<mapsto> ''extruder_train'', ''position'' \<mapsto> ''0''],
      es_next_stack = None,
      es_super_getProperty = local_settings (PyStr ''-1'') (PyOther True ''0.4'') PyNone\<rparr>"

definition G :: "string \<Rightarrow> (string \<rightharpoonup> extruder_ref) \<Rightarrow> GlobalStack" where
  "G ident slots =
     \<lparr>gs_id = ident,
      gs_extruders = slots,
      gs_extruders_None = None,
      gs_getProperty = (\<lambda>key property_name.
         if key = ''layer_height'' \<and> property_name = ''value'' then PyOther True ''0.1''
         else PyNone),
      gs_getMachineDefinition = ''fdmprinter''\<rparr>"

definition two_slots :: "string \<rightharpoonup> extruder_ref" where
  "two_slots = [''0'' \<mapsto> 0, ''1'' \<mapsto> 1]"

definition machine :: "pyval \<Rightarrow> (string \<rightharpoonup> extruder_ref) \<Rightarrow> store" where
  "machine limit slots =
     \<lparr>extruder_stacks = (\<lambda>a. if a = 0 then E1 limit else if a = 1 then E2 else E3),
      global_stacks = (\<lambda>a. if a = 0 then G ''G'' slots else G ''M1'' Map.empty),
      extruder_manager = [0 \<mapsto> ''G'', 1 \<mapsto> ''G''],
      container_registry = [0, 1]\<rparr>"

text \<open>
  The machine where \<open>E1\<close> has the integer \<open>-1\<close> as \<^verbatim>\<open>limit_to_extruder\<close> and
  \<^verbatim>\<open>"-1"\<close> as its \<^verbatim>\<open>position\<close>, and the global stack holds \<open>E2\<close> under \<^verbatim>\<open>"-1"\<close>.
\<close>

definition sentinel_machine :: store where
  "sentinel_machine =
     (let s = machine (PyInt (- 1)) [''-1'' \<mapsto> 1]
      in s\<lparr>extruder_stacks :=
             (extruder_stacks s)(0 := (E1 (PyInt (- 1)))
                \<lparr>es_metadata := [''type'' \<mapsto> ''extruder_train'', ''position'' \<mapsto> ''-1'',
                                 ''machine'' \<mapsto> ''G'']\<rparr>)\<rparr>)"



text \<open>
  A stand-in for the inherited \<^verbatim>\<open>deserialize\<close>: the text is the machine identifier,
  and an empty text is refused.
\<close>

definition read_machine :: "ExtruderStack \<Rightarrow> string \<Rightarrow> error + ExtruderStack" where
  "read_machine this contents =
     (if contents = [] then Inl (ContainerError ''empty'')
      else Inr (this\<lparr>es_metadata := (es_metadata this)(''machine'' \<mapsto> contents)\<rparr>))"

lemmas machine_defs =
  machine_def E1_def E2_def E3_def G_def two_slots_def local_settings_def getMetaDataEntry_def
  getMetaDataEntry_default_def getNextStack_def missing_next_stack_def

section \<open>The branches of the resolution\<close>

lemma getProperty_unlinked:
  assumes "es_next_stack (extruder_stacks s self) = None"
  shows "getProperty s self key property_name =
           Some (Inl (missing_next_stack (es_id (extruder_stacks s self))))"
  using assms by (subst getProperty.simps) simp

lemma getProperty_delegated:
  assumes "es_next_stack (extruder_stacks s self) = Some parent"
    and "\<not> py_bool (es_super_getProperty (extruder_stacks s self) key ''settable_per_extruder'')"
  shows "getProperty s self key property_name =
           Some (Inr (gs_getProperty (global_stacks s parent) key property_name))"
  using assms by (subst getProperty.simps) simp

lemma getProperty_local:
  assumes "es_next_stack (extruder_stacks s self) = Some parent"
    and "py_bool (es_super_getProperty (extruder_stacks s self) key ''settable_per_extruder'')"
    and "es_super_getProperty (extruder_stacks s self) key ''limit_to_extruder'' = L"
    and "L = PyNone \<or> \<not> py_ne_str L ''-1''
           \<or> getMetaDataEntry (extruder_stacks s self) ''position'' = Some (py_str L)"
  shows "getProperty s self key property_name =
           Some (Inr (es_super_getProperty (extruder_stacks s self) key property_name))"
  using assms by (subst getProperty.simps) auto

lemma getProperty_redirected:
  assumes "es_next_stack (extruder_stacks s self) = Some parent"
    and "py_bool (es_super_getProperty (extruder_stacks s self) key ''settable_per_extruder'')"
    and "es_super_getProperty (extruder_stacks s self) key ''limit_to_extruder'' = L"
    and "L \<noteq> PyNone" and "py_ne_str L ''-1''"
    and "getMetaDataEntry (extruder_stacks s self) ''position'' \<noteq> Some (py_str L)"
  shows "getProperty s self key property_name =
           (case gs_extruders (global_stacks s parent) (py_str L) of
              None \<Rightarrow> Some (Inr (es_super_getProperty (extruder_stacks s self) key property_name))
            | Some sibling \<Rightarrow>
                (case getProperty s sibling key property_name of
                   None \<Rightarrow> None
                 | Some (Inl e) \<Rightarrow> Some (Inl e)
                 | Some (Inr v) \<Rightarrow>
                     if v \<noteq> PyNone then Some (Inr v)
                     else Some (Inr (es_super_getProperty (extruder_stacks s self) key
                                       property_name))))"
  using assms
  by (subst getProperty.simps) (simp split: option.split sum.split)

section \<open>Properties of the resolution\<close>

text \<open>
  Claim C1. On a linked extruder stack, when the stack's own data (the inherited
  \<^verbatim>\<open>getProperty\<close>) gives \<^verbatim>\<open>settable_per_extruder\<close> of a key as \<^verbatim>\<open>False\<close> or as
  \<^verbatim>\<open>None\<close>, \<^verbatim>\<open>getProperty(key, property_name)\<close> returns what the global stack's
  \<^verbatim>\<open>getProperty(key, property_name)\<close> returns, for every key and property name; the
  stack's own value for the property plays no part.
\<close>

theorem getProperty_not_settable_per_extruder:
  assumes "es_next_stack (extruder_stacks s self) = Some parent"
    and "es_super_getProperty (extruder_stacks s self) key ''settable_per_extruder'' = PyBool False
         \<or> es_super_getProperty (extruder_stacks s self) key ''settable_per_extruder'' = PyNone"
  shows "getProperty s self key property_name =
           Some (Inr (gs_getProperty (global_stacks s parent) key property_name))"
proof -
  from assms(2)
  have "\<not> py_bool (es_super_getProperty (extruder_stacks s self) key ''settable_per_extruder'')"
    by auto
  with assms(1) show ?thesis by (rule getProperty_delegated)
qed

theorem getProperty_not_settable_per_extruder_witness:
  "es_next_stack (extruder_stacks (machine (PyStr ''-1'') two_slots) 0) = Some 0
   \<and> es_super_getProperty (extruder_stacks (machine (PyStr ''-1'') two_slots) 0)
        ''layer_height'' ''settable_per_extruder'' = PyNone
   \<and> getProperty (machine (PyStr ''-1'') two_slots) 0 ''layer_height'' ''value''
       = Some (Inr (PyOther True ''0.1''))"
  using getProperty_not_settable_per_extruder
    [of "machine (PyStr ''-1'') two_slots" 0 0 "''layer_height''" "''value''"]
  by (simp add: machine_defs)

text \<open>
  Claim C2. Redirection. Let \<open>A\<close> be a linked extruder stack whose own data marks the key
  settable per extruder and gives \<^verbatim>\<open>limit_to_extruder\<close> a value \<open>L\<close> that is not
  \<^verbatim>\<open>None\<close>, differs from \<^verbatim>\<open>"-1"\<close>, and whose text \<^verbatim>\<open>str(L)\<close> differs from the
  \<^verbatim>\<open>position\<close> metadata of \<open>A\<close>. If the global stack's \<^verbatim>\<open>extruders\<close> holds a stack
  \<open>B\<close> under \<^verbatim>\<open>str(L)\<close> and \<^verbatim>\<open>getProperty\<close> on \<open>B\<close> returns a value \<open>v\<close> that is not
  \<^verbatim>\<open>None\<close>, then \<^verbatim>\<open>getProperty\<close> on \<open>A\<close> returns \<open>v\<close>, whatever the own value of
  \<open>A\<close> is.
\<close>

theorem getProperty_redirected_to_sibling:
  assumes "es_next_stack (extruder_stacks s A) = Some parent"
    and "py_bool (es_super_getProperty (extruder_stacks s A) key ''settable_per_extruder'')"
    and "es_super_getProperty (extruder_stacks s A) key ''limit_to_extruder'' = L"
    and "L \<noteq> PyNone" and "py_ne_str L ''-1''"
    and "getMetaDataEntry (extruder_stacks s A) ''position'' \<noteq> Some (py_str L)"
    and "gs_extruders (global_stacks s parent) (py_str L) = Some B"
    and "getProperty s B key property_name = Some (Inr v)" and "v \<noteq> PyNone"
  shows "getProperty s A key property_name = Some (Inr v)"
proof -
  note getProperty_redirected [OF assms(1-6), of property_name]
  also have "(case gs_extruders (global_stacks s parent) (py_str L) of
                None \<Rightarrow> Some (Inr (es_super_getProperty (extruder_stacks s A) key property_name))
              | Some sibling \<Rightarrow>
                  (case getProperty s sibling key property_name of
                     None \<Rightarrow> None
                   | Some (Inl e) \<Rightarrow> Some (Inl e)
                   | Some (Inr v) \<Rightarrow>
                       if v \<noteq> PyNone then Some (Inr v)
                       else Some (Inr (es_super_getProperty (extruder_stacks s A) key
                                         property_name)))) = Some (Inr v)"
    using assms(7-9) by simp
  finally show ?thesis .
qed

lemma E2_value:
  "getProperty (machine limit slots) 1 ''wall_thickness'' property_name
     = Some (Inr (es_super_getProperty E2 ''wall_thickness'' property_name))"
  by (rule trans [OF getProperty_local [where L = "PyStr ''-1''" and parent = 0]])
     (simp_all add: machine_defs)

theorem getProperty_redirected_to_sibling_witness:
  "es_next_stack (extruder_stacks (machine (PyStr ''1'') two_slots) 0) = Some 0
   \<and> py_bool (es_super_getProperty (extruder_stacks (machine (PyStr ''1'') two_slots) 0)
        ''wall_thickness'' ''settable_per_extruder'')
   \<and> es_super_getProperty (extruder_stacks (machine (PyStr ''1'') two_slots) 0)
        ''wall_thickness'' ''limit_to_extruder'' = PyStr ''1''
   \<and> getMetaDataEntry (extruder_stacks (machine (PyStr ''1'') two_slots) 0) ''position''
        = Some ''0''
   \<and> gs_extruders (global_stacks (machine (PyStr ''1'') two_slots) 0) ''1'' = Some 1
   \<and> getProperty (machine (PyStr ''1'') two_slots) 1 ''wall_thickness'' ''value''
        = Some (Inr (PyOther True ''1.2''))
   \<and> es_super_getProperty (extruder_stacks (machine (PyStr ''1'') two_slots) 0)
        ''wall_thickness'' ''value'' = PyOther True ''0.8''
   \<and> getProperty (machine (PyStr ''1'') two_slots) 0 ''wall_thickness'' ''value''
        = Some (Inr (PyOther True ''1.2''))"
  using getProperty_redirected_to_sibling
    [of "machine (PyStr ''1'') two_slots" 0 0 "''wall_thickness''" "PyStr ''1''" 1 "''value''"
        "PyOther True ''1.2''"]
    E2_value [of "PyStr ''1''" two_slots "''value''"]
  by (simp add: machine_defs)

text \<open>
  Claim C3. On a linked extruder stack, for a key that its own data marks settable per
  extruder: when \<^verbatim>\<open>limit_to_extruder\<close> is \<^verbatim>\<open>None\<close>, or is the string \<^verbatim>\<open>"-1"\<close>, or its
  text is the stack's own \<^verbatim>\<open>position\<close>, \<^verbatim>\<open>getProperty\<close> returns the stack's own value
  (that of the inherited \<^verbatim>\<open>getProperty\<close>).
\<close>

theorem getProperty_own_value:
  assumes "es_next_stack (extruder_stacks s self) = Some parent"
    and "py_bool (es_super_getProperty (extruder_stacks s self) key ''settable_per_extruder'')"
    and "es_super_getProperty (extruder_stacks s self) key ''limit_to_extruder'' = L"
    and "L = PyNone \<or> L = PyStr ''-1''
         \<or> getMetaDataEntry (extruder_stacks s self) ''position'' = Some (py_str L)"
  shows "getProperty s self key property_name =
           Some (Inr (es_super_getProperty (extruder_stacks s self) key property_name))"
proof -
  from assms(4)
  have "L = PyNone \<or> \<not> py_ne_str L ''-1''
          \<or> getMetaDataEntry (extruder_stacks s self) ''position'' = Some (py_str L)"
    by auto
  with assms(1-3) show ?thesis by (rule getProperty_local)
qed

theorem getProperty_own_value_witness:
  "getProperty (machine PyNone two_slots) 0 ''wall_thickness'' ''value''
     = Some (Inr (PyOther True ''0.8''))
   \<and> getProperty (machine (PyStr ''-1'') two_slots) 0 ''wall_thickness'' ''value''
     = Some (Inr (PyOther True ''0.8''))
   \<and> getProperty (machine (PyStr ''0'') two_slots) 0 ''wall_thickness'' ''value''
     = Some (Inr (PyOther True ''0.8''))
   \<and> getProperty (machine (PyInt 0) two_slots) 0 ''wall_thickness'' ''value''
     = Some (Inr (PyOther True ''0.8''))"
  using
    getProperty_own_value
      [of "machine PyNone two_slots" 0 0 "''wall_thickness''" PyNone "''value''"]
    getProperty_own_value
      [of "machine (PyStr ''-1'') two_slots" 0 0 "''wall_thickness''" "PyStr ''-1''" "''value''"]
    getProperty_own_value
      [of "machine (PyStr ''0'') two_slots" 0 0 "''wall_thickness''" "PyStr ''0''" "''value''"]
    getProperty_own_value
      [of "machine (PyInt 0) two_slots" 0 0 "''wall_thickness''" "PyInt 0" "''value''"]
  by (simp add: machine_defs str_nat.simps digit_char_def)

text \<open>
  Claim C4. Fallback. Let \<open>A\<close> be a linked extruder stack for which the condition of
  the redirection holds (the key is settable per extruder, \<^verbatim>\<open>limit_to_extruder\<close> is a
  value \<open>L\<close> that is not \<^verbatim>\<open>None\<close>, differs from \<^verbatim>\<open>"-1"\<close> and whose text is not the own
  \<^verbatim>\<open>position\<close>). If the global stack's \<^verbatim>\<open>extruders\<close> has no entry under \<^verbatim>\<open>str(L)\<close>,
  or the stack under it returns \<^verbatim>\<open>None\<close> from \<^verbatim>\<open>getProperty\<close>, then
  \<^verbatim>\<open>getProperty\<close> on \<open>A\<close> raises nothing and returns the own value of \<open>A\<close>.
\<close>

theorem getProperty_redirection_falls_back:
  assumes "es_next_stack (extruder_stacks s A) = Some parent"
    and "py_bool (es_super_getProperty (extruder_stacks s A) key ''settable_per_extruder'')"
    and "es_super_getProperty (extruder_stacks s A) key ''limit_to_extruder'' = L"
    and "L \<noteq> PyNone" and "py_ne_str L ''-1''"
    and "getMetaDataEntry (extruder_stacks s A) ''position'' \<noteq> Some (py_str L)"
    and "gs_extruders (global_stacks s parent) (py_str L) = None
         \<or> (\<exists>B. gs_extruders (global_stacks s parent) (py_str L) = Some B
                \<and> getProperty s B key property_name = Some (Inr PyNone))"
  shows "getProperty s A key property_name =
           Some (Inr (es_super_getProperty (extruder_stacks s A) key property_name))"
  using assms(7)
proof
  assume "gs_extruders (global_stacks s parent) (py_str L) = None"
  then show ?thesis
    by (simp add: getProperty_redirected [OF assms(1-6)])
next
  assume "\<exists>B. gs_extruders (global_stacks s parent) (py_str L) = Some B
              \<and> getProperty s B key property_name = Some (Inr PyNone)"
  then obtain B where "gs_extruders (global_stacks s parent) (py_str L) = Some B"
    and "getProperty s B key property_name = Some (Inr PyNone)"
    by blast
  then show ?thesis
    by (simp add: getProperty_redirected [OF assms(1-6)])
qed

theorem getProperty_redirection_falls_back_witness:
  "gs_extruders (global_stacks (machine (PyStr ''5'') two_slots) 0) ''5'' = None
   \<and> getProperty (machine (PyStr ''5'') two_slots) 0 ''wall_thickness'' ''value''
       = Some (Inr (PyOther True ''0.8''))
   \<and> gs_extruders (global_stacks (machine (PyStr ''1'') two_slots) 0) ''1'' = Some 1
   \<and> getProperty (machine (PyStr ''1'') two_slots) 1 ''wall_thickness'' ''label''
       = Some (Inr PyNone)
   \<and> getProperty (machine (PyStr ''1'') two_slots) 0 ''wall_thickness'' ''label''
       = Some (Inr (PyStr ''Wall''))"
  using
    getProperty_redirection_falls_back
      [of "machine (PyStr ''5'') two_slots" 0 0 "''wall_thickness''" "PyStr ''5''" "''value''"]
    getProperty_redirection_falls_back
      [of "machine (PyStr ''1'') two_slots" 0 0 "''wall_thickness''" "PyStr ''1''" "''label''"]
    E2_value [of "PyStr ''1''" two_slots "''label''"]
  by (simp add: machine_defs)

text \<open>
  Claim C5. On an extruder stack without a next stack, \<^verbatim>\<open>getProperty\<close> raises
  \<^verbatim>\<open>NoGlobalStackError\<close>, whose message names the stack's \<^verbatim>\<open>id\<close>, for every key and
  property name. It returns no value, and nothing else of the stack or of the store
  is looked at: the outcome depends on the \<^verbatim>\<open>id\<close> alone.
\<close>

theorem getProperty_without_next_stack:
  assumes "es_next_stack (extruder_stacks s self) = None"
  shows "getProperty s self key property_name =
           Some (Inl (NoGlobalStackError
             (''Extruder '' @ es_id (extruder_stacks s self) @ '' is missing the next stack!'')))"
  using getProperty_unlinked [OF assms] by (simp add: missing_next_stack_def)

theorem getProperty_without_next_stack_witness:
  "es_next_stack (extruder_stacks (machine (PyStr ''-1'') two_slots) 2) = None
   \<and> getProperty (machine (PyStr ''-1'') two_slots) 2 ''layer_height'' ''value''
       = Some (Inl (NoGlobalStackError ''Extruder E3 is missing the next stack!''))"
  using getProperty_without_next_stack
    [of "machine (PyStr ''-1'') two_slots" 2 "''layer_height''" "''value''"]
  by (simp add: machine_defs)

text \<open>
  Claim C6 says that \<^verbatim>\<open>getProperty\<close> succeeds without a next stack when the stack's
  own data marks the key settable per extruder and holds a value. The code raises
  before it looks at the stack's data: \<open>E3\<close> is not linked, marks
  \<^verbatim>\<open>wall_thickness\<close> settable per extruder and holds the value 0.4, and
  \<^verbatim>\<open>getProperty\<close> raises \<^verbatim>\<open>NoGlobalStackError\<close>.
\<close>

theorem getProperty_unlinked_own_value_counterexample:
  "es_next_stack (extruder_stacks (machine (PyStr ''-1'') two_slots) 2) = None
   \<and> py_bool (es_super_getProperty (extruder_stacks (machine (PyStr ''-1'') two_slots) 2)
        ''wall_thickness'' ''settable_per_extruder'')
   \<and> es_super_getProperty (extruder_stacks (machine (PyStr ''-1'') two_slots) 2)
        ''wall_thickness'' ''value'' = PyOther True ''0.4''
   \<and> getProperty (machine (PyStr ''-1'') two_slots) 2 ''wall_thickness'' ''value''
        \<noteq> Some (Inr (PyOther True ''0.4''))
   \<and> getProperty (machine (PyStr ''-1'') two_slots) 2 ''wall_thickness'' ''value''
        = Some (Inl (NoGlobalStackError ''Extruder E3 is missing the next stack!''))"
  by (simp add: getProperty_unlinked machine_defs)

text \<open>
  Claim C6, amended. On an extruder stack without a next stack, \<^verbatim>\<open>getProperty\<close>
  raises \<^verbatim>\<open>NoGlobalStackError\<close> also when the stack's own data marks the key settable
  per extruder and holds a value for the property: that value is not returned.
\<close>

theorem getProperty_unlinked_own_value_not_returned:
  assumes "es_next_stack (extruder_stacks s self) = None"
    and "py_bool (es_super_getProperty (extruder_stacks s self) key ''settable_per_extruder'')"
    and "es_super_getProperty (extruder_stacks s self) key property_name \<noteq> PyNone"
  shows "getProperty s self key property_name
           = Some (Inl (missing_next_stack (es_id (extruder_stacks s self))))
         \<and> getProperty s self key property_name
           \<noteq> Some (Inr (es_super_getProperty (extruder_stacks s self) key property_name))"
  using getProperty_unlinked [OF assms(1)] by simp

theorem getProperty_unlinked_own_value_not_returned_witness:
  "es_next_stack (extruder_stacks (machine PyNone two_slots) 2) = None
   \<and> py_bool (es_super_getProperty (extruder_stacks (machine PyNone two_slots) 2)
        ''wall_thickness'' ''settable_per_extruder'')
   \<and> es_super_getProperty (extruder_stacks (machine PyNone two_slots) 2)
        ''wall_thickness'' ''value'' \<noteq> PyNone
   \<and> getProperty (machine PyNone two_slots) 2 ''wall_thickness'' ''value''
        = Some (Inl (NoGlobalStackError ''Extruder E3 is missing the next stack!''))"
  using getProperty_unlinked_own_value_not_returned
    [of "machine PyNone two_slots" 2 "''wall_thickness''" "''value''"]
  by (simp add: machine_defs)

lemma py_str_minus_one: "py_str (PyInt (- 1)) = ''-1''"
  by (simp add: str_nat.simps digit_char_def)

text \<open>
  Claim C10 says that, for every linked extruder stack whose own data gives the integer
  \<open>-1\<close> as \<^verbatim>\<open>limit_to_extruder\<close> of a key settable per extruder, a redirection to the
  position \<^verbatim>\<open>"-1"\<close> is attempted. The second test of line 66 compares the stack's own
  \<^verbatim>\<open>position\<close> with \<^verbatim>\<open>str(-1)\<close>: a stack whose position is \<^verbatim>\<open>"-1"\<close> is not
  redirected. In \<open>sentinel_machine\<close> the global stack holds \<open>E2\<close>, with the value 1.2,
  under \<^verbatim>\<open>"-1"\<close>, and \<open>E1\<close> still returns its own 0.8.
\<close>

theorem getProperty_integer_sentinel_counterexample:
  "es_next_stack (extruder_stacks sentinel_machine 0) = Some 0
   \<and> py_bool (es_super_getProperty (extruder_stacks sentinel_machine 0)
        ''wall_thickness'' ''settable_per_extruder'')
   \<and> es_super_getProperty (extruder_stacks sentinel_machine 0)
        ''wall_thickness'' ''limit_to_extruder'' = PyInt (- 1)
   \<and> getMetaDataEntry (extruder_stacks sentinel_machine 0) ''position'' = Some ''-1''
   \<and> gs_extruders (global_stacks sentinel_machine 0) ''-1'' = Some 1
   \<and> getProperty sentinel_machine 1 ''wall_thickness'' ''value''
        = Some (Inr (PyOther True ''1.2''))
   \<and> getProperty sentinel_machine 0 ''wall_thickness'' ''value''
        = Some (Inr (PyOther True ''0.8''))"
  by (simp add: getProperty.simps sentinel_machine_def machine_defs py_str_minus_one Let_def
        del: py_str.simps)

text \<open>
  Claim C10, amended. On a linked extruder stack whose own data gives the integer
  \<open>-1\<close> as \<^verbatim>\<open>limit_to_extruder\<close> of a key settable per extruder, the test against the
  string \<^verbatim>\<open>"-1"\<close> does not stop the redirection (the integer differs from the string,
  and its text is \<^verbatim>\<open>"-1"\<close>). When the global stack's \<^verbatim>\<open>extruders\<close> has no entry under
  \<^verbatim>\<open>"-1"\<close> the result is the stack's own value. When the stack's own \<^verbatim>\<open>position\<close> is
  not \<^verbatim>\<open>"-1"\<close>, the redirection to \<^verbatim>\<open>"-1"\<close> takes place: the value of a stack held
  under \<^verbatim>\<open>"-1"\<close>, if not \<^verbatim>\<open>None\<close>, is returned.
\<close>

theorem getProperty_integer_sentinel:
  assumes "es_next_stack (extruder_stacks s A) = Some parent"
    and "py_bool (es_super_getProperty (extruder_stacks s A) key ''settable_per_extruder'')"
    and "es_super_getProperty (extruder_stacks s A) key ''limit_to_extruder'' = PyInt (- 1)"
  shows "(PyInt (- 1) \<noteq> PyNone \<and> py_ne_str (PyInt (- 1)) ''-1'')
         \<and> py_str (PyInt (- 1)) = ''-1''
         \<and> (gs_extruders (global_stacks s parent) ''-1'' = None \<longrightarrow>
              getProperty s A key property_name =
                Some (Inr (es_super_getProperty (extruder_stacks s A) key property_name)))
         \<and> (getMetaDataEntry (extruder_stacks s A) ''position'' \<noteq> Some ''-1''
              \<and> gs_extruders (global_stacks s parent) ''-1'' = Some B
              \<and> getProperty s B key property_name = Some (Inr v) \<and> v \<noteq> PyNone \<longrightarrow>
              getProperty s A key property_name = Some (Inr v))"
proof -
  have absent: "getProperty s A key property_name =
      Some (Inr (es_super_getProperty (extruder_stacks s A) key property_name))"
    if none: "gs_extruders (global_stacks s parent) ''-1'' = None"
  proof (cases "getMetaDataEntry (extruder_stacks s A) ''position'' = Some ''-1''")
    case True
    then have "PyInt (- 1) = PyNone \<or> \<not> py_ne_str (PyInt (- 1)) ''-1''
        \<or> getMetaDataEntry (extruder_stacks s A) ''position'' = Some (py_str (PyInt (- 1)))"
      by (simp add: py_str_minus_one del: py_str.simps)
    with assms show ?thesis by (rule getProperty_local)
  next
    case False
    then have pos: "getMetaDataEntry (extruder_stacks s A) ''position''
        \<noteq> Some (py_str (PyInt (- 1)))"
      by (simp add: py_str_minus_one del: py_str.simps)
    have "PyInt (- 1) \<noteq> PyNone" and "py_ne_str (PyInt (- 1)) ''-1''" by simp_all
    from getProperty_redirected [OF assms this pos, of property_name] none
    show ?thesis by (simp add: py_str_minus_one del: py_str.simps)
  qed
  have present: "getProperty s A key property_name = Some (Inr v)"
    if pos': "getMetaDataEntry (extruder_stacks s A) ''position'' \<noteq> Some ''-1''"
      and B: "gs_extruders (global_stacks s parent) ''-1'' = Some B"
      and v: "getProperty s B key property_name = Some (Inr v)" "v \<noteq> PyNone"
  proof -
    from pos' have pos: "getMetaDataEntry (extruder_stacks s A) ''position''
        \<noteq> Some (py_str (PyInt (- 1)))"
      by (simp add: py_str_minus_one del: py_str.simps)
    have "PyInt (- 1) \<noteq> PyNone" and "py_ne_str (PyInt (- 1)) ''-1''" by simp_all
    from getProperty_redirected [OF assms this pos, of property_name] B v
    show ?thesis by (simp add: py_str_minus_one del: py_str.simps)
  qed
  show ?thesis
    using absent present by (simp add: py_str_minus_one del: py_str.simps)
qed

theorem getProperty_integer_sentinel_witness:
  "es_super_getProperty (extruder_stacks (machine (PyInt (- 1)) two_slots) 0)
      ''wall_thickness'' ''limit_to_extruder'' = PyInt (- 1)
   \<and> gs_extruders (global_stacks (machine (PyInt (- 1)) two_slots) 0) ''-1'' = None
   \<and> getProperty (machine (PyInt (- 1)) two_slots) 0 ''wall_thickness'' ''value''
        = Some (Inr (PyOther True ''0.8''))
   \<and> getMetaDataEntry (extruder_stacks (machine (PyInt (- 1)) [''-1'' \<mapsto> 1]) 0) ''position''
        = Some ''0''
   \<and> gs_extruders (global_stacks (machine (PyInt (- 1)) [''-1'' \<mapsto> 1]) 0) ''-1'' = Some 1
   \<and> getProperty (machine (PyInt (- 1)) [''-1'' \<mapsto> 1]) 1 ''wall_thickness'' ''value''
        = Some (Inr (PyOther True ''1.2''))
   \<and> getProperty (machine (PyInt (- 1)) [''-1'' \<mapsto> 1]) 0 ''wall_thickness'' ''value''
        = Some (Inr (PyOther True ''1.2''))"
  using
    getProperty_integer_sentinel
      [of "machine (PyInt (- 1)) two_slots" 0 0 "''wall_thickness''" "''value''"]
    getProperty_integer_sentinel
      [of "machine (PyInt (- 1)) [''-1'' \<mapsto> 1]" 0 0 "''wall_thickness''" "''value''" 1
          "PyOther True ''1.2''"]
    E2_value [of "PyInt (- 1)" "[''-1'' \<mapsto> 1]" "''value''"]
  by (simp add: machine_defs)

section \<open>Properties of the machine definition\<close>

text \<open>
  Claim C9. \<^verbatim>\<open>_getMachineDefinition\<close> raises \<^verbatim>\<open>NoGlobalStackError\<close> if and only if
  the extruder stack has no next stack; with a next stack it returns what the next
  stack's \<^verbatim>\<open>_getMachineDefinition\<close> returns; and in both cases the store, so the
  extruder stack too, is as before.
\<close>

theorem getMachineDefinition_delegates:
  "(isl (fst (getMachineDefinition s self)) \<longleftrightarrow> getNextStack (extruder_stacks s self) = None)
   \<and> (getNextStack (extruder_stacks s self) = None \<longrightarrow>
        fst (getMachineDefinition s self) =
          Inl (NoGlobalStackError
            (''Extruder '' @ es_id (extruder_stacks s self) @ '' is missing the next stack!'')))
   \<and> (getNextStack (extruder_stacks s self) = Some parent \<longrightarrow>
        fst (getMachineDefinition s self) =
          Inr (gs_getMachineDefinition (global_stacks s parent)))
   \<and> snd (getMachineDefinition s self) = s"
  by (cases "getNextStack (extruder_stacks s self)")
     (simp_all add: getMachineDefinition_def missing_next_stack_def Let_def)

theorem getMachineDefinition_delegates_witness:
  "getNextStack (extruder_stacks (machine PyNone two_slots) 2) = None
   \<and> fst (getMachineDefinition (machine PyNone two_slots) 2)
       = Inl (NoGlobalStackError ''Extruder E3 is missing the next stack!'')
   \<and> getNextStack (extruder_stacks (machine PyNone two_slots) 0) = Some 0
   \<and> fst (getMachineDefinition (machine PyNone two_slots) 0) = Inr ''fdmprinter''
   \<and> snd (getMachineDefinition (machine PyNone two_slots) 0) = machine PyNone two_slots"
  using
    getMachineDefinition_delegates [of "machine PyNone two_slots" 2]
    getMachineDefinition_delegates [of "machine PyNone two_slots" 0 0]
  by (simp add: machine_defs)

section \<open>Properties of linking\<close>

lemmas setNextStack_defs =
  setNextStack_def super_setNextStack_def addExtruder_def addMetaDataEntry_def
  registerExtruder_def

lemma setNextStack_next_stack:
  "getNextStack (extruder_stacks (setNextStack s self stack) self) = Some stack"
  by (simp add: setNextStack_defs getNextStack_def Let_def split: option.split)













section \<open>Properties of loading\<close>

lemma deserialize_raises:
  assumes "super_deserialize (extruder_stacks s self) contents = Inl e"
  shows "deserialize super_deserialize s self contents = Inl e"
  using assms by (simp add: deserialize_def)

lemma loaded_self: "extruder_stacks (loaded s self this) self = this"
  by (simp add: loaded_def)

lemma deserialize_no_match:
  assumes "super_deserialize (extruder_stacks s self) contents = Inr this"
    and "findContainerStacks (loaded s self this) (getMetaDataEntry_default this ''machine'' [])
           = []"
  shows "deserialize super_deserialize s self contents = Inr (loaded s self this)"
  using assms by (simp add: deserialize_def loaded_self Let_def)

lemma deserialize_first_match:
  assumes "super_deserialize (extruder_stacks s self) contents = Inr this"
    and "findContainerStacks (loaded s self this) (getMetaDataEntry_default this ''machine'' [])
           = stack # rest"
  shows "deserialize super_deserialize s self contents
           = Inr (setNextStack (loaded s self this) self stack)"
  using assms by (simp add: deserialize_def loaded_self Let_def)

lemma findContainerStacks_loaded:
  "findContainerStacks (loaded s self this) ident = findContainerStacks s ident"
  by (simp add: findContainerStacks_def loaded_def)

lemma findContainerStacks_unique:
  assumes "p \<in> set (container_registry s)" and "gs_id (global_stacks s p) = m"
    and "\<forall>g\<in>set (container_registry s). gs_id (global_stacks s g) = m \<longrightarrow> g = p"
  shows "\<exists>rest. findContainerStacks s m = p # rest"
proof -
  let ?found = "findContainerStacks s m"
  from assms(1,2) have "p \<in> set ?found"
    by (simp add: findContainerStacks_def)
  then obtain g rest where found: "?found = g # rest"
    by (cases ?found) auto
  then have "g \<in> set ?found" by simp
  then have "g \<in> set (container_registry s)" and "gs_id (global_stacks s g) = m"
    by (simp_all add: findContainerStacks_def)
  with assms(3) have "g = p" by blast
  with found show ?thesis by blast
qed

text \<open>
  Claim C8. \<^verbatim>\<open>deserialize\<close> runs the inherited \<^verbatim>\<open>deserialize\<close> first (when that
  raises, nothing more is done), then reads the \<^verbatim>\<open>machine\<close> metadata entry, with the
  empty string as default, and looks the stacks with that identifier up in the
  registry. With no match it raises nothing and the store is the one the inherited
  \<^verbatim>\<open>deserialize\<close> left: the next stack of the extruder stack is as loaded, so a stack
  loaded without one stays without. With a match it calls \<^verbatim>\<open>setNextStack\<close> on the
  first, which is then the next stack. So an extruder stack loaded with the \<^verbatim>\<open>machine\<close>
  entry \<open>m\<close>, while the registry holds \<open>p\<close> as its stack with the identifier \<open>m\<close>, has
  \<open>p\<close> as its next stack.
\<close>

theorem deserialize_links_first_match:
  "(super_deserialize (extruder_stacks s self) contents = Inl e \<longrightarrow>
      deserialize super_deserialize s self contents = Inl e)
   \<and> (super_deserialize (extruder_stacks s self) contents = Inr this \<longrightarrow>
        (findContainerStacks (loaded s self this)
             (getMetaDataEntry_default this ''machine'' []) = [] \<longrightarrow>
           deserialize super_deserialize s self contents = Inr (loaded s self this)
           \<and> getNextStack (extruder_stacks (loaded s self this) self) = getNextStack this)
        \<and> (findContainerStacks (loaded s self this)
               (getMetaDataEntry_default this ''machine'' []) = stack # rest \<longrightarrow>
             deserialize super_deserialize s self contents
               = Inr (setNextStack (loaded s self this) self stack)
             \<and> getNextStack
                 (extruder_stacks (setNextStack (loaded s self this) self stack) self)
               = Some stack)
        \<and> (getMetaDataEntry this ''machine'' = Some m
             \<and> p \<in> set (container_registry s) \<and> gs_id (global_stacks s p) = m
             \<and> (\<forall>g\<in>set (container_registry s). gs_id (global_stacks s g) = m \<longrightarrow> g = p) \<longrightarrow>
             (\<exists>s'. deserialize super_deserialize s self contents = Inr s'
                  \<and> getNextStack (extruder_stacks s' self) = Some p)))"
proof (intro conjI impI)
  assume "super_deserialize (extruder_stacks s self) contents = Inl e"
  then show "deserialize super_deserialize s self contents = Inl e"
    by (rule deserialize_raises)
next
  assume "super_deserialize (extruder_stacks s self) contents = Inr this"
    and "findContainerStacks (loaded s self this)
           (getMetaDataEntry_default this ''machine'' []) = []"
  then show "deserialize super_deserialize s self contents = Inr (loaded s self this)"
    by (rule deserialize_no_match)
next
  show "getNextStack (extruder_stacks (loaded s self this) self) = getNextStack this"
    by (simp add: loaded_self)
next
  assume "super_deserialize (extruder_stacks s self) contents = Inr this"
    and "findContainerStacks (loaded s self this)
           (getMetaDataEntry_default this ''machine'' []) = stack # rest"
  then show "deserialize super_deserialize s self contents
               = Inr (setNextStack (loaded s self this) self stack)"
    by (rule deserialize_first_match)
next
  show "getNextStack (extruder_stacks (setNextStack (loaded s self this) self stack) self)
          = Some stack"
    by (rule setNextStack_next_stack)
next
  assume loaded: "super_deserialize (extruder_stacks s self) contents = Inr this"
    and registered: "getMetaDataEntry this ''machine'' = Some m
      \<and> p \<in> set (container_registry s) \<and> gs_id (global_stacks s p) = m
      \<and> (\<forall>g\<in>set (container_registry s). gs_id (global_stacks s g) = m \<longrightarrow> g = p)"
  from registered have "getMetaDataEntry_default this ''machine'' [] = m"
    by (simp add: getMetaDataEntry_def getMetaDataEntry_default_def)
  moreover from registered obtain rest' where "findContainerStacks s m = p # rest'"
    using findContainerStacks_unique [of p s m] by blast
  ultimately have "findContainerStacks (loaded s self this)
      (getMetaDataEntry_default this ''machine'' []) = p # rest'"
    by (simp add: findContainerStacks_loaded)
  with loaded have "deserialize super_deserialize s self contents
      = Inr (setNextStack (loaded s self this) self p)"
    by (rule deserialize_first_match)
  then show "\<exists>s'. deserialize super_deserialize s self contents = Inr s'
      \<and> getNextStack (extruder_stacks s' self) = Some p"
    by (simp add: setNextStack_next_stack)
qed

theorem deserialize_links_first_match_witness:
  "deserialize read_machine (machine PyNone two_slots) 2 [] = Inl (ContainerError ''empty'')
   \<and> deserialize read_machine (machine PyNone two_slots) 2 ''M7''
       = Inr (loaded (machine PyNone two_slots) 2
                (E3\<lparr>es_metadata := (es_metadata E3)(''machine'' \<mapsto> ''M7'')\<rparr>))
   \<and> getNextStack (extruder_stacks (loaded (machine PyNone two_slots) 2
                (E3\<lparr>es_metadata := (es_metadata E3)(''machine'' \<mapsto> ''M7'')\<rparr>)) 2) = None
   \<and> (\<exists>s'. deserialize read_machine (machine PyNone two_slots) 2 ''M1'' = Inr s'
          \<and> getNextStack (extruder_stacks s' 2) = Some 1)"
  using
    deserialize_links_first_match
      [of read_machine "machine PyNone two_slots" 2 "[]" "ContainerError ''empty''"]
    deserialize_links_first_match
      [of read_machine "machine PyNone two_slots" 2 "''M7''" _
          "E3\<lparr>es_metadata := (es_metadata E3)(''machine'' \<mapsto> ''M7'')\<rparr>"]
    deserialize_links_first_match
      [of read_machine "machine PyNone two_slots" 2 "''M1''" _
          "E3\<lparr>es_metadata := (es_metadata E3)(''machine'' \<mapsto> ''M1'')\<rparr>" _ _ "''M1''" 1]
  by (simp add: read_machine_def findContainerStacks_def loaded_def machine_defs)

end
